theory Spec2Isabelle
  imports Main "HOL-Library.Word"
begin

unbundle bit_operations_syntax

section \<open>Data model of \<^verbatim>\<open>include/vrt/queue.h\<close>\<close>

text \<open>
  \<^verbatim>\<open>typedef int vrt_value_id\<close>: a sequence ID is a 32-bit machine integer. It is kept as
  its bit pattern, and \<open>sint\<close> reads the signed value. The words' own \<open>+\<close> and \<open>-\<close>
  wrap around, as C's do on \<^verbatim>\<open>unsigned int\<close>; the subtraction of two \<^verbatim>\<open>int\<close> IDs,
  which C leaves undefined on overflow, is \<open>int_sub\<close> below.
  \<^verbatim>\<open>unsigned int\<close> fields are 32-bit words read with \<open>unat\<close>.
\<close>

type_synonym vrt_value_id = "32 word"

datatype vrt_value_special =
  VRT_VALUE_NONE | VRT_VALUE_EOF | VRT_VALUE_HOLE | VRT_VALUE_FLUSH

text \<open>\<^verbatim>\<open>struct vrt_value\<close>; the field \<^verbatim>\<open>id\<close> is \<open>id_v\<close> here.\<close>

record vrt_value =
  id_v :: vrt_value_id
  special :: vrt_value_special

text \<open>
  \<^verbatim>\<open>struct vrt_producer\<close>. The back pointer to the queue is not a field: every operation
  takes the queue as an argument. The function pointers \<^verbatim>\<open>claim\<close> and \<^verbatim>\<open>publish\<close>
  are chosen by the number of producers of the queue.
\<close>

record vrt_producer =
  index :: "32 word"
  last_produced_id :: vrt_value_id
  last_claimed_id :: vrt_value_id
  batch_size :: "32 word"

text \<open>
  \<^verbatim>\<open>struct vrt_consumer\<close>. \<open>dependencies\<close> holds the positions, in the queue's
  consumer array, of the consumers this one waits for.
\<close>

record vrt_consumer =
  index :: "32 word"
  cursor :: vrt_value_id
  last_available_id :: vrt_value_id
  current_id :: vrt_value_id
  eof_count :: "32 word"
  dependencies :: "nat list"

text \<open>\<^verbatim>\<open>struct vrt_queue\<close>; the array \<^verbatim>\<open>values\<close> is \<open>values_q\<close> here.\<close>

record vrt_queue =
  values_q :: "vrt_value list"
  value_mask :: "32 word"
  producers :: "vrt_producer list"
  consumers :: "vrt_consumer list"
  last_consumed_id :: vrt_value_id
  last_claimed_id :: vrt_value_id
  cursor :: vrt_value_id
  name :: string

text \<open>\<^verbatim>\<open>#define VRT_QUEUE_EOF -2\<close> and \<^verbatim>\<open>#define VRT_QUEUE_FLUSH -3\<close>.\<close>

definition VRT_QUEUE_EOF :: int where
  "VRT_QUEUE_EOF = - 2"

definition VRT_QUEUE_FLUSH :: int where
  "VRT_QUEUE_FLUSH = - 3"

section \<open>The macros and inline functions of the header\<close>

text \<open>
  The subtraction \<^verbatim>\<open>(b)-(a)\<close> of two \<^verbatim>\<open>int\<close> operands. C defines it only when the
  mathematical difference is an \<^verbatim>\<open>int\<close>; on overflow the behaviour is undefined, which
  is \<open>None\<close> here.
\<close>

definition int_sub :: "vrt_value_id \<Rightarrow> vrt_value_id \<Rightarrow> vrt_value_id option" where
  "int_sub b a =
     (if - (2 ^ 31) \<le> sint b - sint a \<and> sint b - sint a < 2 ^ 31 then Some (b - a) else None)"

text \<open>
  \<^verbatim>\<open>#define vrt_mod_lt(a, b) (0 < ((b)-(a)))\<close> and
  \<^verbatim>\<open>#define vrt_mod_le(a, b) (0 <= ((b)-(a)))\<close>, on the \<^verbatim>\<open>int\<close> operands that
  \<^verbatim>\<open>vrt_value_id\<close> gives them: the signed difference is compared with 0, and the macro
  has no defined result where the difference overflows.
\<close>

definition vrt_mod_lt :: "vrt_value_id \<Rightarrow> vrt_value_id \<Rightarrow> bool option" where
  "vrt_mod_lt a b = map_option (\<lambda>d. 0 <s d) (int_sub b a)"

definition vrt_mod_le :: "vrt_value_id \<Rightarrow> vrt_value_id \<Rightarrow> bool option" where
  "vrt_mod_le a b = map_option (\<lambda>d. 0 \<le>s d) (int_sub b a)"

text \<open>\<^verbatim>\<open>#define vrt_queue_size(q) ((q)->value_mask + 1)\<close>, in \<^verbatim>\<open>unsigned int\<close>.\<close>

definition vrt_queue_size :: "vrt_queue \<Rightarrow> 32 word" where
  "vrt_queue_size q = value_mask q + 1"

text \<open>
  An array read \<^verbatim>\<open>values[ix]\<close>: \<open>None\<close> stands for a read outside the allocated
  array, which C leaves undefined.
\<close>

definition array_read :: "'a list \<Rightarrow> nat \<Rightarrow> 'a option" where
  "array_read xs ix = (if ix < length xs then Some (xs ! ix) else None)"

text \<open>
  \<^verbatim>\<open>#define vrt_queue_get(q, id) ((q)->values[(id) & (q)->value_mask])\<close>. The \<^verbatim>\<open>int\<close>
  ID is converted to \<^verbatim>\<open>unsigned int\<close> for the \<^verbatim>\<open>&\<close>, which keeps its bit pattern;
  the index is the unsigned result.
\<close>

definition vrt_queue_index :: "vrt_queue \<Rightarrow> vrt_value_id \<Rightarrow> 32 word" where
  "vrt_queue_index q i = i AND value_mask q"

definition vrt_queue_get :: "vrt_queue \<Rightarrow> vrt_value_id \<Rightarrow> vrt_value option" where
  "vrt_queue_get q i = array_read (values_q q) (unat (vrt_queue_index q i))"

text \<open>
  \<^verbatim>\<open>vrt_queue_get_cursor\<close>, \<^verbatim>\<open>vrt_queue_set_cursor\<close>, \<^verbatim>\<open>vrt_consumer_get_cursor\<close> and
  \<^verbatim>\<open>vrt_consumer_set_cursor\<close> read and write a padded integer cell; the cell is the
  field itself here.
\<close>

definition vrt_queue_get_cursor :: "vrt_queue \<Rightarrow> vrt_value_id" where
  "vrt_queue_get_cursor q = vrt_queue.cursor q"

definition vrt_queue_set_cursor :: "vrt_queue \<Rightarrow> vrt_value_id \<Rightarrow> vrt_queue" where
  "vrt_queue_set_cursor q v = q\<lparr>vrt_queue.cursor := v\<rparr>"

definition vrt_consumer_get_cursor :: "vrt_consumer \<Rightarrow> vrt_value_id" where
  "vrt_consumer_get_cursor c = vrt_consumer.cursor c"

definition vrt_consumer_set_cursor :: "vrt_consumer \<Rightarrow> vrt_value_id \<Rightarrow> vrt_consumer" where
  "vrt_consumer_set_cursor c v = c\<lparr>vrt_consumer.cursor := v\<rparr>"

text \<open>
  \<^verbatim>\<open>struct vrt_value_type\<close>. \<open>new_value\<close> is the result of a call of the function
  pointer \<^verbatim>\<open>new_value\<close>: \<open>None\<close> when the allocation fails. \<^verbatim>\<open>free_value\<close> is
  not a field, since no operation here frees a value.
\<close>

record vrt_value_type =
  type_id :: "32 word"
  new_value :: "vrt_value option"

section \<open>Queue construction\<close>

text \<open>
  Modelled from the spec: \<^verbatim>\<open>vrt_queue_new\<close>, which the header only declares
  (\<^verbatim>\<open>queue.h\<close>, lines 170 to 173). The definitions of this section follow sections 3,
  4.2, 4.4 and 7 of the specification.
\<close>

text \<open>
  Modelled from the spec: the error of a constructor whose allocation fails (section 7,
  "out of memory at construction").
\<close>

datatype vrt_error = Out_of_memory

text \<open>
  Modelled from the spec: the initial cursor, "one before the first valid ID", the
  all-ones bit pattern (section 3).
\<close>

definition INITIAL_SENTINEL :: vrt_value_id where
  "INITIAL_SENTINEL = - 1"

text \<open>
  Modelled from the spec: rounding up to the next power of two (section 4.4), as the loop
  that doubles \<open>2 ^ k\<close> while it is below the requested count.
\<close>

function next_power_of_2 :: "nat \<Rightarrow> nat \<Rightarrow> nat" where
  "next_power_of_2 k n = (if 2 ^ k < n then next_power_of_2 (Suc k) n else 2 ^ k)"
  by pat_completeness auto
termination
proof (relation "measure (\<lambda>(k, n). n - 2 ^ k)")
  show "wf (measure (\<lambda>(k, n). n - 2 ^ k))"
    by simp
next
  fix k n :: nat
  assume less: "2 ^ k < n"
  have "0 < x \<Longrightarrow> x < n \<Longrightarrow> n - 2 * x < n - x" for x :: nat
    by arith
  from this [of "2 ^ k"] less
  show "((Suc k, n), (k, n)) \<in> measure (\<lambda>(k, n). n - 2 ^ k)"
    by simp
qed

text \<open>
  Modelled from the spec: the capacity of a queue requested with \<open>value_count\<close> slots,
  the next power of two and at least 2 (the loop starts at \<open>2 ^ 1\<close>).
\<close>

definition vrt_queue_capacity :: "32 word \<Rightarrow> nat" where
  "vrt_queue_capacity value_count = next_power_of_2 1 (unat value_count)"

text \<open>
  Modelled from the spec: \<^verbatim>\<open>vrt_queue_new\<close> (section 4.4). A failed allocation is out
  of memory; otherwise every slot is allocated through the value type with its ID set to
  the sentinel, both cursors are the sentinel and the producer and consumer arrays are
  empty. The specification names an upper bound on the capacity only as
  implementation-defined and lists it among its open questions, so none is modelled: the
  capacity is stored as the header stores it, in the 32 bits of \<^verbatim>\<open>value_mask\<close>.
\<close>

definition vrt_queue_new ::
  "string \<Rightarrow> vrt_value_type \<Rightarrow> 32 word \<Rightarrow> vrt_error + vrt_queue" where
  "vrt_queue_new nm value_type value_count =
     (case new_value value_type of
        None \<Rightarrow> Inl Out_of_memory
      | Some v \<Rightarrow>
          Inr \<lparr>values_q = replicate (vrt_queue_capacity value_count) (v\<lparr>id_v := INITIAL_SENTINEL\<rparr>),
               value_mask = of_nat (vrt_queue_capacity value_count - 1),
               producers = [], consumers = [],
               last_consumed_id = INITIAL_SENTINEL,
               vrt_queue.last_claimed_id = INITIAL_SENTINEL,
               vrt_queue.cursor = INITIAL_SENTINEL,
               name = nm\<rparr>)"

declare next_power_of_2.simps [simp del]

section \<open>Example values\<close>

text \<open>A queue of four slots that has seen the IDs 0 to 5, and a value type that allocates.\<close>

definition example_queue :: vrt_queue where
  "example_queue =
     \<lparr>values_q = [\<lparr>id_v = 4, special = VRT_VALUE_NONE\<rparr>, \<lparr>id_v = 5, special = VRT_VALUE_HOLE\<rparr>,
         \<lparr>id_v = 2, special = VRT_VALUE_NONE\<rparr>, \<lparr>id_v = 3, special = VRT_VALUE_EOF\<rparr>],
       value_mask = 3, producers = [], consumers = [], last_consumed_id = 1,
       vrt_queue.last_claimed_id = 5, vrt_queue.cursor = 5, name = ''q''\<rparr>"

definition example_value_type :: vrt_value_type where
  "example_value_type = \<lparr>type_id = 7, new_value = Some \<lparr>id_v = 0, special = VRT_VALUE_NONE\<rparr>\<rparr>"

section \<open>Modular ordering of sequence IDs\<close>

lemma sint_of_int_small:
  "- (2 ^ 31) \<le> d \<Longrightarrow> d < 2 ^ 31 \<Longrightarrow> sint (word_of_int d :: 32 word) = d"
  by (simp add: sint_sbintrunc' signed_take_bit_int_eq_self_iff)

lemma sint_range: "- (2 ^ 31) \<le> sint a" "sint a < 2 ^ 31" for a :: "32 word"
  using sint_ge [of a] sint_lt [of a] by simp_all

lemma int_sub_Some:
  assumes "int_sub b a = Some d"
  shows "sint d = sint b - sint a"
proof -
  have range: "- (2 ^ 31) \<le> sint b - sint a" "sint b - sint a < 2 ^ 31" and d: "d = b - a"
    using assms by (auto simp: int_sub_def split: if_splits)
  have "b - a = word_of_int (sint b - sint a)"
    by simp
  then show ?thesis
    using range d sint_of_int_small [of "sint b - sint a"] by simp
qed

text \<open>Where the macros have a result, it is the plain signed comparison of the operands.\<close>

lemma vrt_mod_lt_Some: "vrt_mod_lt a b = Some r \<Longrightarrow> r \<longleftrightarrow> sint a < sint b"
  by (auto simp: vrt_mod_lt_def word_sless_alt dest: int_sub_Some)

lemma vrt_mod_le_Some: "vrt_mod_le a b = Some r \<Longrightarrow> r \<longleftrightarrow> sint a \<le> sint b"
  by (auto simp: vrt_mod_le_def word_sle_eq dest: int_sub_Some)

text \<open>
  For a distance \<open>0 < d < 2^31\<close>, the pair \<open>a\<close>, \<open>a + d\<close> has the result the modular
  order asks for when \<open>a + d\<close> does not wrap around; across the wrap-around the
  subtraction overflows in both directions.
\<close>

lemma sint_add_int:
  "sint (a + word_of_int d :: 32 word) = (sint a + d + 2 ^ 31) mod 2 ^ 32 - 2 ^ 31"
proof -
  have "a + word_of_int d = (word_of_int (sint a + d) :: 32 word)"
    by simp
  then show ?thesis
    by (simp only: sint_sbintrunc' signed_take_bit_eq_take_bit_shift take_bit_eq_mod) simp
qed

lemma sint_add_wrapped:
  assumes "0 < d" and "d < 2 ^ 31" and "2 ^ 31 \<le> sint a + d"
  shows "sint (a + word_of_int d :: 32 word) = sint a + d - 2 ^ 32"
proof -
  have "(x + 2 ^ 32) mod 2 ^ 32 = x" if "0 \<le> x" and "x < 2 ^ 32" for x :: int
    using that by simp
  from this [of "sint a + d - 2 ^ 31"]
  have "(sint a + d + 2 ^ 31) mod 2 ^ 32 = sint a + d - 2 ^ 31"
    using assms sint_range [of a] by (simp add: add.commute)
  then show ?thesis
    by (simp add: sint_add_int)
qed

lemma sint_add_plain:
  assumes "0 < d" and "sint a + d < 2 ^ 31"
  shows "sint (a + word_of_int d :: 32 word) = sint a + d"
proof -
  have "(sint a + d + 2 ^ 31) mod 2 ^ 32 = sint a + d + 2 ^ 31"
    using assms sint_range [of a] by (intro mod_pos_pos_trivial) simp_all
  then show ?thesis
    by (simp add: sint_add_int)
qed

lemma vrt_mod_lt_across_wrap:
  assumes "0 < d" and "d < 2 ^ 31" and "2 ^ 31 \<le> sint a + d"
  shows "vrt_mod_lt a (a + word_of_int d) = None" and "vrt_mod_lt (a + word_of_int d) a = None"
  using sint_add_wrapped [OF assms] assms by (simp_all add: vrt_mod_lt_def int_sub_def)

lemma vrt_mod_lt_within_range:
  assumes "0 < d" and "d < 2 ^ 31" and "sint a + d < 2 ^ 31"
  shows "vrt_mod_lt a (a + word_of_int d) = Some True"
    and "vrt_mod_lt (a + word_of_int d) a = Some False"
proof -
  have sum: "sint (a + word_of_int d) = sint a + d"
    using assms(1,3) by (rule sint_add_plain)
  have fwd: "sint (a + word_of_int d - a) = d"
    using assms sint_of_int_small [of d] by simp
  have "a - (a + word_of_int d) = (word_of_int (- d) :: 32 word)"
    by simp
  moreover have "sint (word_of_int (- d) :: 32 word) = - d"
    using assms by (simp add: sint_of_int_small del: of_int_minus)
  ultimately have bwd: "sint (a - (a + word_of_int d)) = - d"
    by simp
  show "vrt_mod_lt a (a + word_of_int d) = Some True"
    using sum fwd assms by (simp add: vrt_mod_lt_def int_sub_def word_sless_alt)
  show "vrt_mod_lt (a + word_of_int d) a = Some False"
    using sum bwd assms by (simp add: vrt_mod_lt_def int_sub_def word_sless_alt)
qed

text \<open>
  C1, at the failing input. \<open>a = 0x7FFFFFFF\<close> is the largest ID and \<open>b = a + 3\<close> wraps to
  \<open>0x80000002\<close>: the distance is 3, far below half the ID range, and the claim makes
  \<open>vrt_mod_lt a b\<close> true and \<open>vrt_mod_lt b a\<close> false. The signed subtraction of the macro
  overflows in both, so neither has a defined result.
\<close>

theorem vrt_mod_lt_overflow:
  "(0x7FFFFFFF :: 32 word) + 3 = 0x80000002 \<and>
   vrt_mod_lt 0x7FFFFFFF 0x80000002 = None \<and> vrt_mod_lt 0x80000002 0x7FFFFFFF = None \<and>
   vrt_mod_le 0x7FFFFFFF 0x80000002 = None \<and> vrt_mod_le 0x80000002 0x7FFFFFFF = None"
  by (simp add: vrt_mod_lt_def vrt_mod_le_def int_sub_def)

section \<open>Slots of the ring\<close>

lemma and_mask_add_pow2: "(i + 2 ^ k) AND (2 ^ k - 1) = i AND (2 ^ k - 1)" for i :: "32 word"
proof -
  have z: "(2 ^ k :: 32 word) AND mask k = 0"
    by (rule bit_eqI) (auto simp: bit_simps)
  have "(i + 2 ^ k) AND mask k = (i + (2 ^ k AND mask k)) AND mask k"
    by (simp only: mask_eqs(2))
  also have "\<dots> = i AND mask k"
    by (simp only: z add_0_right)
  finally show ?thesis
    by (simp only: mask_eq_exp_minus_1)
qed

lemma idx_le: "unat (i AND m) \<le> unat m" for i m :: "32 word"
  using word_and_le1 [of i m] by (simp only: word_le_nat_alt)

lemma example_queue_simps:
  "value_mask example_queue = 3" "length (values_q example_queue) = 4"
  "values_q example_queue ! 1 = \<lparr>id_v = 5, special = VRT_VALUE_HOLE\<rparr>"
  "values_q example_queue ! 3 = \<lparr>id_v = 3, special = VRT_VALUE_EOF\<rparr>"
  by (simp_all add: example_queue_def)

text \<open>
  C7. The size of a queue is \<open>value_mask + 1\<close>, the capacity \<open>N\<close>, and \<open>vrt_queue_get\<close>
  reads the slot at index \<open>id AND (N - 1)\<close>. When \<open>N\<close> is a power of two, which the
  header documents of every queue at \<^verbatim>\<open>value_mask\<close>, the IDs \<open>id\<close> and \<open>id + N\<close> read the
  same slot.
\<close>

theorem vrt_queue_get_same_slot:
  "vrt_queue_size q = value_mask q + 1 \<and>
   vrt_queue_get q i = array_read (values_q q) (unat (i AND (vrt_queue_size q - 1))) \<and>
   (vrt_queue_size q = 2 ^ k \<longrightarrow> vrt_queue_get q (i + vrt_queue_size q) = vrt_queue_get q i)"
proof -
  have "value_mask q = 2 ^ k - 1" if "vrt_queue_size q = 2 ^ k"
    using that by (simp add: vrt_queue_size_def algebra_simps)
  then show ?thesis
    by (auto simp: vrt_queue_size_def vrt_queue_get_def vrt_queue_index_def and_mask_add_pow2)
qed

theorem vrt_queue_get_same_slot_witness:
  "vrt_queue_size example_queue = 2 ^ 2 \<and>
   vrt_queue_get example_queue 5 = vrt_queue_get example_queue 1 \<and>
   vrt_queue_get example_queue 1 = Some \<lparr>id_v = 5, special = VRT_VALUE_HOLE\<rparr>"
proof -
  have size: "vrt_queue_size example_queue = 2 ^ 2"
    by (simp add: vrt_queue_size_def example_queue_simps)
  have "vrt_queue_get example_queue (1 + vrt_queue_size example_queue) = vrt_queue_get example_queue 1"
    using vrt_queue_get_same_slot [of example_queue 1 2] size by simp
  moreover have "1 + vrt_queue_size example_queue = 5"
    by (simp add: vrt_queue_size_def example_queue_simps)
  moreover have "vrt_queue_get example_queue 1 = Some \<lparr>id_v = 5, special = VRT_VALUE_HOLE\<rparr>"
    by (simp add: vrt_queue_get_def vrt_queue_index_def array_read_def example_queue_def)
  ultimately show ?thesis
    using size by simp
qed

text \<open>
  C10. For every ID, the negative ones and the sentinel \<open>- 1\<close> included, the index
  \<open>id AND value_mask\<close> is at most \<open>N - 1\<close>; the sentinel has index \<open>N - 1\<close>. In a queue
  whose array holds its \<open>N\<close> values, \<open>vrt_queue_get\<close> therefore reads inside the array,
  for every ID.
\<close>

theorem vrt_queue_get_in_bounds:
  "unat (vrt_queue_index q i) \<le> unat (vrt_queue_size q - 1) \<and>
   vrt_queue_index q (- 1) = vrt_queue_size q - 1 \<and>
   (length (values_q q) = Suc (unat (value_mask q)) \<longrightarrow>
      unat (vrt_queue_index q i) < length (values_q q) \<and>
      vrt_queue_get q i = Some (values_q q ! unat (vrt_queue_index q i)))"
  using idx_le [of i "value_mask q"]
  by (simp add: vrt_queue_size_def vrt_queue_index_def vrt_queue_get_def array_read_def)

theorem vrt_queue_get_in_bounds_witness:
  "length (values_q example_queue) = Suc (unat (value_mask example_queue)) \<and>
   unat (vrt_queue_index example_queue (- 1)) = 3 \<and>
   vrt_queue_get example_queue (- 1) = Some \<lparr>id_v = 3, special = VRT_VALUE_EOF\<rparr>"
proof -
  have len: "length (values_q example_queue) = Suc (unat (value_mask example_queue))"
    by (simp add: example_queue_simps)
  have ix: "vrt_queue_index example_queue (- 1) = 3"
    by (simp add: vrt_queue_index_def example_queue_simps)
  have "vrt_queue_get example_queue (- 1) =
      Some (values_q example_queue ! unat (vrt_queue_index example_queue (- 1)))"
    using vrt_queue_get_in_bounds [of example_queue "- 1"] len by simp
  then show ?thesis
    using len ix by (simp add: example_queue_simps)
qed

section \<open>The constructed queue\<close>










text \<open>
  C9. In the queue that \<open>vrt_queue_new\<close> returns, \<open>vrt_queue_get_cursor\<close> reads the initial
  sentinel and the claimed cursor holds the same value: the signed value \<open>- 1\<close>, all bits
  set, whose successor is the first ID 0.
\<close>

theorem vrt_queue_new_initial_cursor:
  assumes "vrt_queue_new nm vt value_count = Inr q"
  shows "vrt_queue_get_cursor q = INITIAL_SENTINEL \<and>
         vrt_queue.last_claimed_id q = INITIAL_SENTINEL \<and>
         sint INITIAL_SENTINEL = - 1 \<and> NOT INITIAL_SENTINEL = 0 \<and> INITIAL_SENTINEL + 1 = 0"
  using assms
  by (auto simp: vrt_queue_new_def vrt_queue_get_cursor_def INITIAL_SENTINEL_def
      split: option.splits)

theorem vrt_queue_new_initial_cursor_witness:
  "\<exists>q. vrt_queue_new ''q'' example_value_type 8 = Inr q \<and>
     vrt_queue_get_cursor q = - 1 \<and> vrt_queue.last_claimed_id q = - 1 \<and> vrt_queue_size q = 8"
proof -
  have "vrt_queue_capacity 8 = 8"
    by code_simp
  then obtain q where q: "vrt_queue_new ''q'' example_value_type 8 = Inr q" "vrt_queue_size q = 8"
    by (simp add: vrt_queue_new_def example_value_type_def vrt_queue_size_def)
  from vrt_queue_new_initial_cursor [OF q(1)] q show ?thesis
    by (simp add: INITIAL_SENTINEL_def)
qed

end
